theory Spec2Isabelle
  imports Main "HOL-Library.Multiset" "HOL-Library.Char_ord" "HOL-Library.List_Lexorder"
begin

section \<open>Python values, strings and exceptions\<close>

text \<open>
  Python strings are modelled as \<^typ>\<open>string\<close>, a list of bytes holding the UTF-8
  encoding of the text. Case folding and whitespace follow Python on ASCII text; bytes
  above 127 are left alone by \<open>lower\<close> and \<open>upper\<close> and are never whitespace.
\<close>

definition is_space :: "char \<Rightarrow> bool" where
  "is_space c = (let n = (of_char c :: nat) in (9 \<le> n \<and> n \<le> 13) \<or> (28 \<le> n \<and> n \<le> 32))"

definition lstrip :: "string \<Rightarrow> string" where
  "lstrip s = dropWhile is_space s"

definition strip :: "string \<Rightarrow> string" where
  "strip s = rev (dropWhile is_space (rev (dropWhile is_space s)))"

definition lstrip_chars :: "char \<Rightarrow> string \<Rightarrow> string" where
  "lstrip_chars c s = dropWhile (\<lambda>x. x = c) s"

definition strip_chars :: "char \<Rightarrow> string \<Rightarrow> string" where
  "strip_chars c s = rev (dropWhile (\<lambda>x. x = c) (rev (dropWhile (\<lambda>x. x = c) s)))"

definition lower_char :: "char \<Rightarrow> char" where
  "lower_char c =
     (case map_of (zip ''ABCDEFGHIJKLMNOPQRSTUVWXYZ'' ''abcdefghijklmnopqrstuvwxyz'') c of
        Some l \<Rightarrow> l
      | None \<Rightarrow> c)"

definition upper_char :: "char \<Rightarrow> char" where
  "upper_char c =
     (case map_of (zip ''abcdefghijklmnopqrstuvwxyz'' ''ABCDEFGHIJKLMNOPQRSTUVWXYZ'') c of
        Some u \<Rightarrow> u
      | None \<Rightarrow> c)"

definition lower :: "string \<Rightarrow> string" where
  "lower s = map lower_char s"

definition upper :: "string \<Rightarrow> string" where
  "upper s = map upper_char s"

definition startswith :: "string \<Rightarrow> string \<Rightarrow> bool" where
  "startswith s p = (take (length p) s = p)"

definition endswith :: "string \<Rightarrow> string \<Rightarrow> bool" where
  "endswith s p = (length p \<le> length s \<and> drop (length s - length p) s = p)"

fun contains :: "string \<Rightarrow> string \<Rightarrow> bool" where
  "contains [] p = (p = [])"
| "contains (c # cs) p = (startswith (c # cs) p \<or> contains cs p)"

definition remove_spaces :: "string \<Rightarrow> string" where
  "remove_spaces s = filter (\<lambda>c. c \<noteq> CHR '' '') s"

text \<open>\<open>s.split(sep)\<close> for a one-character separator: always at least one field.\<close>

fun split_on :: "char \<Rightarrow> string \<Rightarrow> string list" where
  "split_on sep [] = [[]]"
| "split_on sep (c # cs) =
     (if c = sep then [] # split_on sep cs
      else (case split_on sep cs of
              [] \<Rightarrow> [[c]]
            | f # fs \<Rightarrow> (c # f) # fs))"

text \<open>
  \<open>s.splitlines()\<close>: a line ends at LF, CR, CR LF, VT, FF, FS, GS or RS; a final line
  without a terminator is kept, and a terminator at the very end opens no empty line.
\<close>

definition is_linebreak :: "char \<Rightarrow> bool" where
  "is_linebreak c = (let n = (of_char c :: nat) in (10 \<le> n \<and> n \<le> 13) \<or> (28 \<le> n \<and> n \<le> 30))"

fun splitlines_acc :: "string \<Rightarrow> string \<Rightarrow> string list" where
  "splitlines_acc acc [] = (if acc = [] then [] else [rev acc])"
| "splitlines_acc acc [c] =
     (if is_linebreak c then [rev acc] else [rev (c # acc)])"
| "splitlines_acc acc (c # d # cs) =
     (if c = CHR 0x0D \<and> d = CHR 0x0A then rev acc # splitlines_acc [] cs
      else if is_linebreak c then rev acc # splitlines_acc [] (d # cs)
      else splitlines_acc (c # acc) (d # cs))"

definition splitlines :: "string \<Rightarrow> string list" where
  "splitlines s = splitlines_acc [] s"

fun join :: "string \<Rightarrow> string list \<Rightarrow> string" where
  "join sep [] = []"
| "join sep [x] = x"
| "join sep (x # y # ys) = x @ sep @ join sep (y # ys)"

text \<open>Decimal text of an integer, as \<open>str(n)\<close> prints it.\<close>

definition digit_char :: "int \<Rightarrow> char" where
  "digit_char d = ''0123456789'' ! nat d"

function str_digits :: "int \<Rightarrow> string" where
  "str_digits n =
     (if n < 10 then [digit_char n] else str_digits (n div 10) @ [digit_char (n mod 10)])"
  by pat_completeness auto
termination
  by (relation "measure nat") auto

declare str_digits.simps [simp del]

definition str_int :: "int \<Rightarrow> string" where
  "str_int i = (if i < 0 then CHR ''-'' # str_digits (- i) else str_digits i)"

text \<open>The format \<open>{n:06d}\<close>: zero padding to six characters, the sign counted.\<close>

definition fmt_06d :: "int \<Rightarrow> string" where
  "fmt_06d i =
     (if i < 0 then CHR ''-'' # replicate (5 - length (str_digits (- i))) CHR ''0'' @ str_digits (- i)
      else replicate (6 - length (str_digits i)) CHR ''0'' @ str_digits i)"

text \<open>
  The emoji that open the status strings of the source, in UTF-8: U+2705 (check mark),
  U+274C (cross mark), and U+26A0 U+FE0F (warning sign with variation selector).
\<close>

definition check_mark :: string where
  "check_mark = [CHR 0xE2, CHR 0x9C, CHR 0x85]"

definition cross_mark :: string where
  "cross_mark = [CHR 0xE2, CHR 0x9D, CHR 0x8C]"

definition warning_sign :: string where
  "warning_sign = [CHR 0xE2, CHR 0x9A, CHR 0xA0, CHR 0xEF, CHR 0xB8, CHR 0x8F]"

text \<open>
  The values a table cell or a dictionary entry holds: an integer, a string, \<open>None\<close>
  (also pandas' missing value), or any other object, kept with its type name and its
  \<open>str()\<close> text (a \<open>set\<close>, \<open>bytes\<close>, a numpy scalar).
\<close>

datatype pyval = PInt int | PStr string | PNone | PObj string string

fun py_str :: "pyval \<Rightarrow> string" where
  "py_str (PInt n) = str_int n"
| "py_str (PStr s) = s"
| "py_str PNone = ''None''"
| "py_str (PObj ty s) = s"

text \<open>
  A raised exception. \<open>Exception cls msg\<close> is an instance of Python's \<open>Exception\<close> (or of
  a subclass named \<open>cls\<close>) whose \<open>str()\<close> is \<open>msg\<close>; \<open>BaseOnly cls\<close> is one that derives from
  \<open>BaseException\<close> alone (\<open>KeyboardInterrupt\<close>, \<open>SystemExit\<close>), which a handler
  \<open>except Exception\<close> does not catch.
\<close>

datatype pyexc = Exception string string | BaseOnly string

text \<open>
  A dictionary with string keys, in insertion order. Assignment to an existing key
  keeps its position.
\<close>

type_synonym pydict = "(string \<times> pyval) list"

definition dict_get :: "pydict \<Rightarrow> string \<Rightarrow> pyval option" where
  "dict_get d k = map_of d k"

fun dict_set :: "pydict \<Rightarrow> string \<Rightarrow> pyval \<Rightarrow> pydict" where
  "dict_set [] k v = [(k, v)]"
| "dict_set ((k', v') # d) k v = (if k' = k then (k, v) # d else (k', v') # dict_set d k v)"

section \<open>The world outside the process, and programs over it\<close>

text \<open>
  A storage location is a local file (named by its resolved path) or a cloud object
  (named \<open>bucket/key\<close>). An object holds text, or a columnar part with its rows.
\<close>

datatype loc = LocalFile string | GcsObject string

datatype content = Text string | Parquet "pydict list"

type_synonym row = "(string \<times> pyval) list"

text \<open>
  What a run does that an observer can count: a call of the per-row fetch function, the
  two-second sleep of the retry loop, the sleep of \<open>--delay\<close> seconds after a row, an
  output part written; and, in the quarter merge job, a batch of input files handed to
  the merge and the sleep between two passes.
\<close>

datatype event =
    EFetch row
  | ESleepRetry
  | ESleepDelay
  | EWritePart loc "pydict list"
  | EBatch "string list"
  | ESleepPass

text \<open>
  Dictionaries live in a heap of objects: a reference is an address, \<open>heap_next\<close> is the
  first address not yet allocated.
\<close>

record world =
  files :: "loc \<rightharpoonup> content"
  heap_obj :: "nat \<Rightarrow> pydict"
  heap_next :: nat
  clock :: int
  stdout :: "string list"
  trace :: "event list"

datatype fsop = OpExists | OpRead | OpWrite | OpMkdir | OpDelete | OpMove

record response =
  status_code :: int
  body :: string

text \<open>
  The collaborators the scripts consume as libraries, as parameters:
  \<^item> \<open>fault op l\<close>: the exception the storage layer raises when \<open>op\<close> is applied to \<open>l\<close>,
    if any (permissions, network, credentials);
  \<^item> \<open>resolve_path\<close>: the file that a local path string denotes
    (\<open>Path(p).expanduser().resolve()\<close>);
  \<^item> \<open>json_dumps\<close> is \<open>json.dumps(d, ensure_ascii=False, indent=2)\<close>, \<open>json_dumps_line\<close> is
    \<open>json.dumps(d, ensure_ascii=False)\<close>, \<open>json_loads\<close> is \<open>json.loads\<close>;
  \<^item> \<open>http_get w url agent\<close>: \<open>requests.get\<close> with that User-Agent, which may depend on
    everything that happened before;
  \<^item> \<open>table_links html\<close>: the \<open>href\<close>s of the anchors of the first table of class
    \<open>tableFile\<close> in document order, or \<open>None\<close> when there is no such table;
  \<^item> \<open>soup_text html\<close>: the text that BeautifulSoup extracts once the non-content tags
    are removed;
  \<^item> \<open>sleep_fault w\<close>: the exception that ends a \<open>time.sleep\<close>, if any (an interrupt);
  \<^item> \<open>gcs_list w p\<close>: the names \<open>bucket/key\<close> of the file objects under \<open>p\<close>, as a recursive
    \<open>FileSelector\<close> returns them;
  \<^item> \<open>iso_format t\<close>: the ISO text of the time \<open>t\<close>.
\<close>

record env =
  fault :: "fsop \<Rightarrow> loc \<Rightarrow> pyexc option"
  resolve_path :: "string \<Rightarrow> string"
  json_dumps :: "pydict \<Rightarrow> pyexc + string"
  json_dumps_line :: "pydict \<Rightarrow> pyexc + string"
  json_loads :: "string \<Rightarrow> pyexc + pydict"
  http_get :: "world \<Rightarrow> string \<Rightarrow> string \<Rightarrow> pyexc + response"
  table_links :: "string \<Rightarrow> pyexc + string list option"
  soup_text :: "string \<Rightarrow> pyexc + string"
  sleep_fault :: "world \<Rightarrow> pyexc option"
  gcs_list :: "world \<Rightarrow> string \<Rightarrow> pyexc + string list"
  iso_format :: "int \<Rightarrow> string"

text \<open>
  A program takes the world and returns its result, or the exception it raised, with the
  world as it left it.
\<close>

type_synonym 'a prog = "world \<Rightarrow> (pyexc + 'a) \<times> world"

definition returnE :: "'a \<Rightarrow> 'a prog" where
  "returnE x = (\<lambda>w. (Inr x, w))"

definition raiseE :: "pyexc \<Rightarrow> 'a prog" where
  "raiseE e = (\<lambda>w. (Inl e, w))"

definition liftE :: "pyexc + 'a \<Rightarrow> 'a prog" where
  "liftE r = (\<lambda>w. (r, w))"

definition bindE :: "'a prog \<Rightarrow> ('a \<Rightarrow> 'b prog) \<Rightarrow> 'b prog" where
  "bindE m f = (\<lambda>w. case m w of (Inl e, w') \<Rightarrow> (Inl e, w') | (Inr x, w') \<Rightarrow> f x w')"

text \<open>\<open>try: m except Exception as e: h\<close>: the handler sees the class name and \<open>str(e)\<close>.\<close>

definition try_except :: "'a prog \<Rightarrow> (string \<Rightarrow> string \<Rightarrow> 'a prog) \<Rightarrow> 'a prog" where
  "try_except m h =
     (\<lambda>w. case m w of
        (Inl (Exception c msg), w') \<Rightarrow> h c msg w'
      | (Inl (BaseOnly c), w') \<Rightarrow> (Inl (BaseOnly c), w')
      | (Inr x, w') \<Rightarrow> (Inr x, w'))"

definition print_line :: "string \<Rightarrow> unit prog" where
  "print_line s = (\<lambda>w. (Inr (), w\<lparr>stdout := stdout w @ [s]\<rparr>))"

definition log_event :: "event \<Rightarrow> unit prog" where
  "log_event ev = (\<lambda>w. (Inr (), w\<lparr>trace := trace w @ [ev]\<rparr>))"

definition time_now :: "int prog" where
  "time_now = (\<lambda>w. (Inr (clock w), w))"

definition time_sleep :: "env \<Rightarrow> event \<Rightarrow> unit prog" where
  "time_sleep E ev =
     (\<lambda>w. case sleep_fault E w of
        Some e \<Rightarrow> (Inl e, w)
      | None \<Rightarrow> (Inr (), w\<lparr>trace := trace w @ [ev]\<rparr>))"

subsection \<open>Storage\<close>

definition fs_exists :: "env \<Rightarrow> loc \<Rightarrow> bool prog" where
  "fs_exists E l =
     (\<lambda>w. case fault E OpExists l of
        Some e \<Rightarrow> (Inl e, w)
      | None \<Rightarrow> (Inr (files w l \<noteq> None), w))"

definition fs_read_text :: "env \<Rightarrow> loc \<Rightarrow> string prog" where
  "fs_read_text E l =
     (\<lambda>w. case fault E OpRead l of
        Some e \<Rightarrow> (Inl e, w)
      | None \<Rightarrow>
          (case files w l of
             None \<Rightarrow> (Inl (Exception ''FileNotFoundError'' ''No such file or object''), w)
           | Some (Text s) \<Rightarrow> (Inr s, w)
           | Some (Parquet rs) \<Rightarrow>
               (Inl (Exception ''UnicodeDecodeError'' ''invalid start byte''), w)))"

definition fs_mkdir_parent :: "env \<Rightarrow> loc \<Rightarrow> unit prog" where
  "fs_mkdir_parent E l =
     (\<lambda>w. case fault E OpMkdir l of Some e \<Rightarrow> (Inl e, w) | None \<Rightarrow> (Inr (), w))"

definition fs_write :: "env \<Rightarrow> loc \<Rightarrow> content \<Rightarrow> unit prog" where
  "fs_write E l c =
     (\<lambda>w. case fault E OpWrite l of
        Some e \<Rightarrow> (Inl e, w)
      | None \<Rightarrow> (Inr (), w\<lparr>files := (files w)(l \<mapsto> c)\<rparr>))"

definition fs_delete :: "env \<Rightarrow> loc \<Rightarrow> unit prog" where
  "fs_delete E l =
     (\<lambda>w. case fault E OpDelete l of
        Some e \<Rightarrow> (Inl e, w)
      | None \<Rightarrow>
          (case files w l of
             None \<Rightarrow> (Inl (Exception ''FileNotFoundError'' ''No such file or object''), w)
           | Some c \<Rightarrow> (Inr (), w\<lparr>files := (files w)(l := None)\<rparr>)))"

definition fs_move :: "env \<Rightarrow> loc \<Rightarrow> loc \<Rightarrow> unit prog" where
  "fs_move E src dst =
     (\<lambda>w. case fault E OpMove src of
        Some e \<Rightarrow> (Inl e, w)
      | None \<Rightarrow>
          (case files w src of
             None \<Rightarrow> (Inl (Exception ''FileNotFoundError'' ''No such file or object''), w)
           | Some c \<Rightarrow> (Inr (), w\<lparr>files := ((files w)(src := None))(dst \<mapsto> c)\<rparr>)))"

subsection \<open>Dictionaries on the heap\<close>

definition dict_new :: "pydict \<Rightarrow> nat prog" where
  "dict_new d =
     (\<lambda>w. (Inr (heap_next w),
            w\<lparr>heap_obj := (heap_obj w)(heap_next w := d), heap_next := Suc (heap_next w)\<rparr>))"

definition dict_read :: "nat \<Rightarrow> pydict prog" where
  "dict_read a = (\<lambda>w. (Inr (heap_obj w a), w))"

text \<open>\<open>dict(state)\<close>: a new dictionary with the entries of the old one.\<close>

definition dict_copy :: "nat \<Rightarrow> nat prog" where
  "dict_copy a = bindE (dict_read a) dict_new"

text \<open>\<open>d[k] = v\<close> on the object at address \<open>a\<close>.\<close>

definition dict_store :: "nat \<Rightarrow> string \<Rightarrow> pyval \<Rightarrow> unit prog" where
  "dict_store a k v =
     (\<lambda>w. (Inr (), w\<lparr>heap_obj := (heap_obj w)(a := dict_set (heap_obj w a) k v)\<rparr>))"

section \<open>The batch fetcher: \<open>fetch_10k_html_batch.py\<close>\<close>

subsection \<open>Storage helpers and the checkpoint\<close>

definition is_gcs_path :: "string \<Rightarrow> bool" where
  "is_gcs_path p = startswith (lower (strip p)) ''gs://''"

definition parse_gcs_url :: "string \<Rightarrow> pyexc + (string \<times> string)" where
  "parse_gcs_url gs_url =
     (let s = strip gs_url in
      if \<not> startswith s ''gs://'' then Inl (Exception ''ValueError'' (''Not a GCS URL: '' @ gs_url))
      else
        (let rest = drop 5 s;
             bucket = takeWhile (\<lambda>c. c \<noteq> CHR ''/'') rest;
             key = drop 1 (dropWhile (\<lambda>c. c \<noteq> CHR ''/'') rest)
         in Inr (bucket, key)))"

definition gcs_object :: "string \<Rightarrow> string \<Rightarrow> loc" where
  "gcs_object bucket key = GcsObject (bucket @ ''/'' @ key)"

definition gcs_exists :: "env \<Rightarrow> string \<Rightarrow> bool prog" where
  "gcs_exists E gs_url =
     bindE (liftE (parse_gcs_url gs_url)) (\<lambda>(bucket, key).
       fs_exists E (gcs_object bucket key))"

definition checkpoint_exists :: "env \<Rightarrow> string \<Rightarrow> bool prog" where
  "checkpoint_exists E path =
     (if is_gcs_path path then gcs_exists E path
      else fs_exists E (LocalFile (resolve_path E path)))"

definition load_checkpoint :: "env \<Rightarrow> string \<Rightarrow> pydict option prog" where
  "load_checkpoint E path =
     bindE (checkpoint_exists E path) (\<lambda>ex.
       if \<not> ex then returnE None
       else
         try_except
           (if is_gcs_path path then
              bindE (liftE (parse_gcs_url path)) (\<lambda>(b, k).
              bindE (fs_read_text E (gcs_object b k)) (\<lambda>data.
              bindE (liftE (json_loads E data)) (\<lambda>d. returnE (Some d))))
            else
              bindE (fs_read_text E (LocalFile (resolve_path E path))) (\<lambda>data.
              bindE (liftE (json_loads E data)) (\<lambda>d. returnE (Some d))))
           (\<lambda>c msg.
              bindE (print_line (''[WARN] Failed to load checkpoint '' @ path @ '': '' @ c @ '': '' @ msg))
                (\<lambda>_. returnE None)))"

text \<open>The argument \<open>state\<close> is a reference to the caller's dictionary.\<close>

definition save_checkpoint :: "env \<Rightarrow> string \<Rightarrow> nat \<Rightarrow> unit prog" where
  "save_checkpoint E path state =
     bindE (dict_copy state) (\<lambda>state'.
     bindE time_now (\<lambda>t.
     bindE (dict_store state' ''updated_at_unix'' (PInt t)) (\<lambda>_.
     bindE (dict_read state') (\<lambda>d.
     bindE (liftE (json_dumps E d)) (\<lambda>payload.
       try_except
         (if is_gcs_path path then
            bindE (liftE (parse_gcs_url path)) (\<lambda>(b, k).
              fs_write E (gcs_object b k) (Text payload))
          else
            bindE (fs_mkdir_parent E (LocalFile (resolve_path E path))) (\<lambda>_.
              fs_write E (LocalFile (resolve_path E path)) (Text payload)))
         (\<lambda>c msg.
            print_line (''[WARN] Failed to save checkpoint '' @ path @ '': '' @ c @ '': '' @ msg)))))))"

subsection \<open>The per-row fetch function and the cleaning helper\<close>

type_synonym fetch_result = "string option \<times> string option \<times> string"

text \<open>\<open>row.get(k, "")\<close>.\<close>

definition row_get :: "row \<Rightarrow> string \<Rightarrow> pyval" where
  "row_get r k = (case map_of r k of None \<Rightarrow> PStr [] | Some v \<Rightarrow> v)"

definition requests_get :: "env \<Rightarrow> string \<Rightarrow> string \<Rightarrow> response prog" where
  "requests_get E url agent = (\<lambda>w. (http_get E w url agent, w))"

text \<open>The filter of \<open>table.find("a", href=...)\<close>: an anchor without \<open>href\<close> never matches.\<close>

definition primary_link :: "string \<Rightarrow> bool" where
  "primary_link h =
     (h \<noteq> [] \<and> (endswith h ''.htm'' \<or> endswith h ''.html'') \<and> \<not> contains (lower h) ''index'')"

text \<open>The body of the \<open>try\<close> block of \<open>extract_filing_html_directly\<close>.\<close>

definition extract_body :: "env \<Rightarrow> row \<Rightarrow> string \<Rightarrow> fetch_result prog" where
  "extract_body E row user_agent_email =
       (let filename = remove_spaces (strip (py_str (row_get row ''Filename''))) in
        if filename = [] then
          returnE (None, None, cross_mark @ '' Missing or invalid Filename'')
        else if endswith (lower filename) ''.txt'' \<or> endswith (lower filename) ''.htm''
                \<or> endswith (lower filename) ''.html'' then
          (let filing_url = ''https://www.sec.gov/Archives/'' @ lstrip_chars CHR ''/'' filename in
           bindE (requests_get E filing_url user_agent_email) (\<lambda>resp.
             if status_code resp \<noteq> 200 then
               returnE (Some filing_url, None,
                        cross_mark @ '' Filing fetch failed: '' @ str_int (status_code resp))
             else returnE (Some filing_url, Some (body resp), check_mark @ '' Success (direct)'')))
        else
          (let parts = split_on CHR ''/'' filename in
           if length parts < 4 then
             returnE (None, None, warning_sign @ '' Invalid path: '' @ filename)
           else
             (let cik = parts ! 2;
                  accession_nodash = parts ! 3;
                  index_url = ''https://www.sec.gov/Archives/edgar/data/'' @ cik @ ''/''
                              @ accession_nodash @ ''/index.html''
              in
              bindE (requests_get E index_url user_agent_email) (\<lambda>resp.
                if status_code resp \<noteq> 200 then
                  returnE (Some index_url, None,
                           cross_mark @ '' Index fetch failed: '' @ str_int (status_code resp))
                else
                  bindE (liftE (table_links E (body resp))) (\<lambda>table.
                    case table of
                      None \<Rightarrow> returnE (Some index_url, None, warning_sign @ '' No document table found'')
                    | Some hrefs \<Rightarrow>
                        (case List.find primary_link hrefs of
                           None \<Rightarrow>
                             returnE (Some index_url, None,
                                      warning_sign @ '' No primary .htm/.html link found'')
                         | Some href \<Rightarrow>
                             (let filing_path = lstrip_chars CHR ''/'' href;
                                  filing_url = ''https://www.sec.gov/'' @ filing_path
                              in
                              bindE (requests_get E filing_url user_agent_email) (\<lambda>f_resp.
                                if status_code f_resp \<noteq> 200 then
                                  returnE (Some filing_url, None,
                                           cross_mark @ '' Filing fetch failed: ''
                                           @ str_int (status_code f_resp))
                                else
                                  returnE (Some filing_url, Some (body f_resp),
                                           check_mark @ '' Success (index)'')))))))))"

definition extract_filing_html_directly :: "env \<Rightarrow> row \<Rightarrow> string \<Rightarrow> fetch_result prog" where
  "extract_filing_html_directly E row user_agent_email =
     try_except (extract_body E row user_agent_email)
       (\<lambda>c msg. returnE (None, None, warning_sign @ '' Exception: '' @ msg))"

text \<open>The body of the \<open>try\<close> block of \<open>clean_filing_html\<close>.\<close>

definition clean_body :: "env \<Rightarrow> string \<Rightarrow> string prog" where
  "clean_body E html_text =
     bindE (liftE (soup_text E html_text)) (\<lambda>raw_text.
       returnE (join [CHR 0x0A]
                  (map strip (filter (\<lambda>line. strip line \<noteq> []) (splitlines raw_text)))))"

definition clean_filing_html :: "env \<Rightarrow> string \<Rightarrow> string prog" where
  "clean_filing_html E html_text =
     try_except (clean_body E html_text)
       (\<lambda>c msg. returnE (warning_sign @ '' Cleaning failed: '' @ msg))"

subsection \<open>The streaming loop of \<open>main\<close>\<close>

record args =
  output_prefix :: string
  user_agent :: string
  retry_limit :: int
  checkpoint_every :: int
  max_rowgroups :: int
  max_filings :: int
  skip_if_exists :: bool
  checkpoint_path :: string
  checkpoint_save_every :: int

text \<open>
  A row group once read: its column names and its rows, each row holding a value for
  every column.
\<close>

record dataframe =
  columns :: "string list"
  rows :: "row list"

text \<open>The variables of \<open>main\<close> that its nested functions and its loop share.\<close>

record vars =
  out_part :: int
  ok_in_part :: int
  total_seen :: int
  total_ok :: int
  processed_since_ckpt :: int
  buffer :: "pydict list"
  start_i :: int
  current_rowgroup :: int
  current_row_index :: int

datatype ctl = Continue vars | Break vars | Return

type_synonym fetch_fn = "row \<Rightarrow> string \<Rightarrow> fetch_result prog"

definition TENK_FORMS :: "string set" where
  "TENK_FORMS = {''10-K'', ''10-K/A''}"

text \<open>\<open>astype("string").str.strip().str.upper()\<close> on one cell; a missing value stays missing.\<close>

definition norm_form_type :: "pyval \<Rightarrow> pyval" where
  "norm_form_type v = (case v of PNone \<Rightarrow> PNone | _ \<Rightarrow> PStr (upper (strip (py_str v))))"

definition is_tenk :: "row \<Rightarrow> bool" where
  "is_tenk r = (case map_of r ''Form Type'' of Some (PStr s) \<Rightarrow> s \<in> TENK_FORMS | _ \<Rightarrow> False)"

definition filter_forms :: "dataframe \<Rightarrow> dataframe" where
  "filter_forms df =
     (if ''Form Type'' \<in> set (columns df) then
        df\<lparr>rows := filter is_tenk
               (map (map (\<lambda>(c, v). if c = ''Form Type'' then (c, norm_form_type v) else (c, v)))
                  (rows df))\<rparr>
      else df)"

text \<open>\<open>pf.read_row_group(rg)\<close> raises outside \<open>0 .. num_row_groups - 1\<close>.\<close>

definition read_row_group :: "dataframe list \<Rightarrow> int \<Rightarrow> pyexc + dataframe" where
  "read_row_group pf rg =
     (if 0 \<le> rg \<and> rg < int (length pf) then Inr (pf ! nat rg)
      else Inl (Exception ''IndexError'' ''row group index out of range''))"

text \<open>\<open>df.iloc[i]\<close>: a negative index counts from the end.\<close>

definition iloc :: "dataframe \<Rightarrow> int \<Rightarrow> pyexc + row" where
  "iloc df i =
     (let n = int (length (rows df)); j = (if i < 0 then n + i else i) in
      if 0 \<le> j \<and> j < n then Inr (rows df ! nat j)
      else Inl (Exception ''IndexError'' ''single positional indexer is out-of-bounds''))"

definition col_key :: "string \<Rightarrow> string" where
  "col_key col = lower (map (\<lambda>c. if c = CHR '' '' then CHR ''_'' else c) col)"

definition row_val :: "row \<Rightarrow> string \<Rightarrow> pyval" where
  "row_val r col = (case map_of r col of None \<Rightarrow> PNone | Some v \<Rightarrow> v)"

definition opt_str :: "string option \<Rightarrow> pyval" where
  "opt_str x = (case x of None \<Rightarrow> PNone | Some s \<Rightarrow> PStr s)"

text \<open>
  The record of one row: the four result fields, then every column of the row under its
  normalised name (a column whose normalised name is one of the four overwrites it).
\<close>

definition make_record :: "pyval \<Rightarrow> pyval \<Rightarrow> pyval \<Rightarrow> pyval \<Rightarrow> string list \<Rightarrow> row \<Rightarrow> pydict" where
  "make_record status url txt cleaned cols r =
     foldl (\<lambda>rec col. dict_set rec (col_key col) (row_val r col))
       [(''status'', status), (''filing_url'', url), (''filing_text'', txt), (''cleaned_text'', cleaned)]
       cols"

definition path_join :: "string \<Rightarrow> string \<Rightarrow> string" where
  "path_join d n = (if endswith d ''/'' then d @ n else d @ ''/'' @ n)"

definition part_url :: "args \<Rightarrow> env \<Rightarrow> int \<Rightarrow> pyexc + string" where
  "part_url A E part_idx =
     (if is_gcs_path (output_prefix A) then
        (case parse_gcs_url (output_prefix A) of
           Inl e \<Rightarrow> Inl e
         | Inr (out_bucket, out_prefix) \<Rightarrow>
             Inr (''gs://'' @ out_bucket @ ''/'' @ strip_chars CHR ''/'' out_prefix
                  @ ''/part-'' @ fmt_06d part_idx @ ''.parquet''))
      else
        Inr (path_join (resolve_path E (output_prefix A)) (''part-'' @ fmt_06d part_idx @ ''.parquet'')))"

definition persist_ckpt :: "args \<Rightarrow> env \<Rightarrow> vars \<Rightarrow> int \<Rightarrow> int \<Rightarrow> unit prog" where
  "persist_ckpt A E vs rowgroup row_in_rowgroup =
     bindE (dict_new
              [(''rowgroup'', PInt rowgroup),
               (''row_in_rowgroup'', PInt row_in_rowgroup),
               (''out_part'', PInt (out_part vs)),
               (''ok_in_part'', PInt (ok_in_part vs)),
               (''total_seen'', PInt (total_seen vs)),
               (''total_ok'', PInt (total_ok vs))])
       (\<lambda>state. save_checkpoint E (checkpoint_path A) state)"

text \<open>Writing a part, recorded in the trace once it is written.\<close>

definition write_parquet :: "env \<Rightarrow> loc \<Rightarrow> pydict list \<Rightarrow> unit prog" where
  "write_parquet E l records =
     bindE (fs_write E l (Parquet records)) (\<lambda>_. log_event (EWritePart l records))"

definition write_part_gcs :: "env \<Rightarrow> pydict list \<Rightarrow> string \<Rightarrow> unit prog" where
  "write_part_gcs E records out_url =
     bindE (liftE (parse_gcs_url out_url)) (\<lambda>(out_bucket, out_key).
       write_parquet E (gcs_object out_bucket out_key) records)"

definition write_part_local :: "env \<Rightarrow> pydict list \<Rightarrow> string \<Rightarrow> unit prog" where
  "write_part_local E records out_path =
     bindE (fs_mkdir_parent E (LocalFile (resolve_path E out_path))) (\<lambda>_.
       write_parquet E (LocalFile (resolve_path E out_path)) records)"

definition after_flush :: "vars \<Rightarrow> vars" where
  "after_flush vs = vs\<lparr>buffer := [], out_part := out_part vs + 1, ok_in_part := 0\<rparr>"

definition flush_part :: "args \<Rightarrow> env \<Rightarrow> vars \<Rightarrow> vars prog" where
  "flush_part A E vs =
     (if buffer vs = [] then returnE vs
      else
        bindE (liftE (part_url A E (out_part vs))) (\<lambda>out.
        bindE (if skip_if_exists A \<and> is_gcs_path out then gcs_exists E out else returnE False)
          (\<lambda>exists_gcs.
        if exists_gcs then returnE (after_flush vs)
        else
          bindE (if skip_if_exists A \<and> \<not> is_gcs_path out
                 then fs_exists E (LocalFile (resolve_path E out)) else returnE False)
            (\<lambda>exists_local.
          if exists_local then returnE (after_flush vs)
          else
            bindE (if is_gcs_path out then write_part_gcs E (buffer vs) out
                   else write_part_local E (buffer vs) out) (\<lambda>_.
            bindE (persist_ckpt A E (after_flush vs)
                     (current_rowgroup (after_flush vs)) (current_row_index (after_flush vs)))
              (\<lambda>_. returnE (after_flush vs)))))))"

text \<open>
  The retry loop of one row: \<open>n\<close> attempts are left, \<open>cur\<close> is what the variables
  \<open>url\<close>, \<open>html_text\<close> and \<open>status\<close> hold (all \<open>None\<close> before the first attempt).
\<close>

definition truthy :: "string option \<Rightarrow> bool" where
  "truthy t = (case t of None \<Rightarrow> False | Some s \<Rightarrow> s \<noteq> [])"

fun retry_loop ::
  "env \<Rightarrow> fetch_fn \<Rightarrow> string \<Rightarrow> row \<Rightarrow> nat
     \<Rightarrow> string option \<times> string option \<times> string option
     \<Rightarrow> (string option \<times> string option \<times> string option) prog" where
  "retry_loop E F agent r 0 cur = returnE cur"
| "retry_loop E F agent r (Suc n) cur =
     bindE (log_event (EFetch r)) (\<lambda>_.
     bindE (F r agent) (\<lambda>(url, html_text, status).
       if truthy html_text then returnE (url, html_text, Some status)
       else bindE (time_sleep E ESleepRetry) (\<lambda>_.
              retry_loop E F agent r n (url, html_text, Some status))))"

definition fail_branch ::
  "args \<Rightarrow> env \<Rightarrow> dataframe \<Rightarrow> int \<Rightarrow> int \<Rightarrow> row \<Rightarrow> string option \<Rightarrow> string option \<Rightarrow> vars \<Rightarrow> ctl prog" where
  "fail_branch A E df rg i r url status vs =
     (let vs1 = vs\<lparr>buffer := buffer vs
                   @ [make_record (opt_str status) (opt_str url) PNone PNone (columns df) r]\<rparr>
      in
      if processed_since_ckpt vs1 \<ge> checkpoint_save_every A then
        bindE (persist_ckpt A E vs1 rg (i + 1)) (\<lambda>_.
          returnE (Continue (vs1\<lparr>processed_since_ckpt := 0\<rparr>)))
      else returnE (Continue vs1))"

definition success_branch ::
  "args \<Rightarrow> env \<Rightarrow> dataframe \<Rightarrow> int \<Rightarrow> int \<Rightarrow> row \<Rightarrow> string option \<Rightarrow> string \<Rightarrow> vars \<Rightarrow> ctl prog" where
  "success_branch A E df rg i r url html_text vs =
     bindE (clean_filing_html E html_text) (\<lambda>cleaned.
       (let vs1 = vs\<lparr>total_ok := total_ok vs + 1, ok_in_part := ok_in_part vs + 1\<rparr>;
            vs2 = vs1\<lparr>buffer := buffer vs1
                    @ [make_record (PStr (check_mark @ '' Success'')) (opt_str url)
                         (PStr html_text) (PStr cleaned) (columns df) r]\<rparr>
        in
        bindE (if ok_in_part vs2 \<ge> checkpoint_every A then flush_part A E vs2 else returnE vs2)
          (\<lambda>vs3.
        bindE (if processed_since_ckpt vs3 \<ge> checkpoint_save_every A then
                 bindE (persist_ckpt A E vs3 rg (i + 1)) (\<lambda>_.
                   returnE (vs3\<lparr>processed_since_ckpt := 0\<rparr>))
               else returnE vs3)
          (\<lambda>vs4.
        bindE (time_sleep E ESleepDelay) (\<lambda>_. returnE (Continue vs4))))))"

definition row_step ::
  "args \<Rightarrow> env \<Rightarrow> fetch_fn \<Rightarrow> dataframe \<Rightarrow> int \<Rightarrow> int \<Rightarrow> vars \<Rightarrow> ctl prog" where
  "row_step A E F df rg i vs0 =
     (let vs = vs0\<lparr>current_row_index := i, total_seen := total_seen vs0 + 1,
                   processed_since_ckpt := processed_since_ckpt vs0 + 1\<rparr>
      in
      if max_filings A \<noteq> 0 \<and> total_seen vs > max_filings A then
        bindE (flush_part A E vs) (\<lambda>vs'.
        bindE (persist_ckpt A E vs' rg i) (\<lambda>_. returnE Return))
      else
        bindE (liftE (iloc df i)) (\<lambda>r.
        bindE (retry_loop E F (user_agent A) r (nat (retry_limit A)) (None, None, None))
          (\<lambda>(url, html_text, status).
             case html_text of
               None \<Rightarrow> fail_branch A E df rg i r url status vs
             | Some h \<Rightarrow>
                 if h = [] then fail_branch A E df rg i r url status vs
                 else success_branch A E df rg i r url h vs)))"

fun rows_loop ::
  "args \<Rightarrow> env \<Rightarrow> fetch_fn \<Rightarrow> dataframe \<Rightarrow> int \<Rightarrow> int list \<Rightarrow> vars \<Rightarrow> ctl prog" where
  "rows_loop A E F df rg [] vs = returnE (Continue vs)"
| "rows_loop A E F df rg (i # is) vs =
     bindE (row_step A E F df rg i vs) (\<lambda>c.
       case c of
         Continue vs' \<Rightarrow> rows_loop A E F df rg is vs'
       | Break vs' \<Rightarrow> returnE (Break vs')
       | Return \<Rightarrow> returnE Return)"

definition rowgroup_step ::
  "args \<Rightarrow> env \<Rightarrow> fetch_fn \<Rightarrow> dataframe list \<Rightarrow> int \<Rightarrow> int \<Rightarrow> vars \<Rightarrow> ctl prog" where
  "rowgroup_step A E F pf start_rg rg vs0 =
     (if max_rowgroups A \<noteq> 0 \<and> rg \<ge> max_rowgroups A then returnE (Break vs0)
      else
        (let vs = vs0\<lparr>current_rowgroup := rg\<rparr> in
         bindE (liftE (read_row_group pf rg)) (\<lambda>df0.
           (let df = filter_forms df0 in
            if rows df = [] then returnE (Continue (vs\<lparr>start_i := 0\<rparr>))
            else
              (let begin_i = (if rg = start_rg then start_i vs else 0) in
               bindE (rows_loop A E F df rg [begin_i .. int (length (rows df)) - 1] vs) (\<lambda>c.
                 case c of
                   Continue vs' \<Rightarrow>
                     bindE (persist_ckpt A E vs' (rg + 1) 0) (\<lambda>_.
                       returnE (Continue (vs'\<lparr>start_i := 0\<rparr>)))
                 | Break vs' \<Rightarrow> returnE (Break vs')
                 | Return \<Rightarrow> returnE Return))))))"

fun rowgroups_loop ::
  "args \<Rightarrow> env \<Rightarrow> fetch_fn \<Rightarrow> dataframe list \<Rightarrow> int \<Rightarrow> int list \<Rightarrow> vars \<Rightarrow> ctl prog" where
  "rowgroups_loop A E F pf start_rg [] vs = returnE (Continue vs)"
| "rowgroups_loop A E F pf start_rg (rg # rgs) vs =
     bindE (rowgroup_step A E F pf start_rg rg vs) (\<lambda>c.
       case c of
         Continue vs' \<Rightarrow> rowgroups_loop A E F pf start_rg rgs vs'
       | Break vs' \<Rightarrow> returnE (Break vs')
       | Return \<Rightarrow> returnE Return)"

text \<open>
  \<open>int(x)\<close> for a checkpoint value: an integer, or a string of decimal digits with an
  optional sign. Other values are taken to raise.
\<close>

definition is_digit :: "char \<Rightarrow> bool" where
  "is_digit c = (let n = (of_char c :: nat) in 48 \<le> n \<and> n \<le> 57)"

definition nat_of_digits :: "string \<Rightarrow> nat" where
  "nat_of_digits s = foldl (\<lambda>acc c. 10 * acc + (of_char c - 48)) 0 s"

definition int_of_str :: "string \<Rightarrow> pyexc + int" where
  "int_of_str s0 =
     (let s = strip s0;
          neg = (s \<noteq> [] \<and> hd s = CHR ''-'');
          ds = (if s \<noteq> [] \<and> (hd s = CHR ''-'' \<or> hd s = CHR ''+'') then tl s else s)
      in
      if ds \<noteq> [] \<and> list_all is_digit ds
      then Inr (if neg then - int (nat_of_digits ds) else int (nat_of_digits ds))
      else Inl (Exception ''ValueError'' (''invalid literal for int() with base 10: '' @ s0)))"

fun py_int :: "pyval \<Rightarrow> pyexc + int" where
  "py_int (PInt n) = Inr n"
| "py_int (PStr s) = int_of_str s"
| "py_int PNone = Inl (Exception ''TypeError'' ''int() argument must be a string or a number'')"
| "py_int (PObj ty s) = Inl (Exception ''TypeError'' ''int() argument must be a string or a number'')"

text \<open>\<open>int(ckpt.get(k, 0))\<close>.\<close>

definition ckpt_int :: "pydict \<Rightarrow> string \<Rightarrow> pyexc + int" where
  "ckpt_int ckpt k = (case dict_get ckpt k of None \<Rightarrow> Inr 0 | Some v \<Rightarrow> py_int v)"

definition default_checkpoint_path :: "args \<Rightarrow> env \<Rightarrow> pyexc + args" where
  "default_checkpoint_path A E =
     (if checkpoint_path A \<noteq> [] then Inr A
      else if is_gcs_path (output_prefix A) then
        (case parse_gcs_url (output_prefix A) of
           Inl e \<Rightarrow> Inl e
         | Inr (b, pref) \<Rightarrow>
             Inr (A\<lparr>checkpoint_path :=
                      ''gs://'' @ b @ ''/'' @ strip_chars CHR ''/'' pref @ ''/_checkpoint.json''\<rparr>))
      else
        Inr (A\<lparr>checkpoint_path := path_join (resolve_path E (output_prefix A)) ''_checkpoint.json''\<rparr>))"

text \<open>
  \<open>main\<close>, for an input file already opened: \<open>pf\<close> is the list of its row groups and \<open>F\<close>
  the per-row fetch function. The progress lines it prints are left out.
\<close>

definition main :: "args \<Rightarrow> env \<Rightarrow> fetch_fn \<Rightarrow> dataframe list \<Rightarrow> unit prog" where
  "main A0 E F pf =
     bindE (liftE (default_checkpoint_path A0 E)) (\<lambda>A.
     bindE (load_checkpoint E (checkpoint_path A)) (\<lambda>loaded.
       (let ckpt = (case loaded of None \<Rightarrow> [] | Some d \<Rightarrow> d) in
        bindE (liftE (ckpt_int ckpt ''rowgroup'')) (\<lambda>start_rg.
        bindE (liftE (ckpt_int ckpt ''row_in_rowgroup'')) (\<lambda>start_i0.
        bindE (liftE (ckpt_int ckpt ''out_part'')) (\<lambda>out_part0.
        bindE (liftE (ckpt_int ckpt ''ok_in_part'')) (\<lambda>ok_in_part0.
        bindE (liftE (ckpt_int ckpt ''total_seen'')) (\<lambda>total_seen0.
        bindE (liftE (ckpt_int ckpt ''total_ok'')) (\<lambda>total_ok0.
          (let vs0 = \<lparr>out_part = out_part0, ok_in_part = ok_in_part0, total_seen = total_seen0,
                      total_ok = total_ok0, processed_since_ckpt = 0, buffer = [],
                      start_i = start_i0, current_rowgroup = start_rg,
                      current_row_index = start_i0\<rparr>
           in
           bindE (rowgroups_loop A E F pf start_rg [start_rg .. int (length pf) - 1] vs0) (\<lambda>c.
             case c of
               Return \<Rightarrow> returnE ()
             | Continue vs \<Rightarrow>
                 bindE (flush_part A E vs) (\<lambda>vs'. persist_ckpt A E vs' (int (length pf)) 0)
             | Break vs \<Rightarrow>
                 bindE (flush_part A E vs) (\<lambda>vs'. persist_ckpt A E vs' (int (length pf)) 0))))))))))))"

section \<open>The quarter merge job: \<open>partition_2_quarters.py\<close>\<close>

record qargs =
  input_prefix :: string
  out_base :: string
  manifest :: string
  batch_files :: int
  sleep_seconds :: int
  lock_path :: string

definition utc_now_iso :: "env \<Rightarrow> string prog" where
  "utc_now_iso E = (\<lambda>w. (Inr (iso_format E (clock w)), w))"

definition split_gcs_uri :: "string \<Rightarrow> pyexc + (string \<times> string)" where
  "split_gcs_uri gs_uri =
     (if \<not> startswith gs_uri ''gs://'' then
        Inl (Exception ''ValueError'' (''Expected gs:// URI, got: '' @ gs_uri))
      else
        (let rest = drop 5 gs_uri in
         Inr (takeWhile (\<lambda>c. c \<noteq> CHR ''/'') rest, drop 1 (dropWhile (\<lambda>c. c \<noteq> CHR ''/'') rest))))"

definition list_gcs_parquets :: "env \<Rightarrow> string \<Rightarrow> string \<Rightarrow> string list prog" where
  "list_gcs_parquets E bucket prefix =
     (\<lambda>w. case gcs_list E w (bucket @ ''/'' @ prefix) of
        Inl e \<Rightarrow> (Inl e, w)
      | Inr paths \<Rightarrow>
          (Inr (sort (map (\<lambda>p. ''gs://'' @ p) (filter (\<lambda>p. endswith p ''.parquet'') paths))), w))"

text \<open>The loop of \<open>read_manifest\<close> over the lines: \<open>obj["input_file"]\<close> of each non-blank line.\<close>

fun manifest_entries :: "env \<Rightarrow> string list \<Rightarrow> pyexc + pyval list" where
  "manifest_entries E [] = Inr []"
| "manifest_entries E (line # ls) =
     (if strip line = [] then manifest_entries E ls
      else
        (case json_loads E line of
           Inl e \<Rightarrow> Inl e
         | Inr obj \<Rightarrow>
             (case dict_get obj ''input_file'' of
                None \<Rightarrow> Inl (Exception ''KeyError'' ''input_file'')
              | Some v \<Rightarrow>
                  (case manifest_entries E ls of
                     Inl e \<Rightarrow> Inl e
                   | Inr vs \<Rightarrow> Inr (v # vs)))))"

text \<open>The set that \<open>read_manifest\<close> returns is kept as the list of its elements.\<close>

definition read_manifest :: "env \<Rightarrow> string \<Rightarrow> pyval list prog" where
  "read_manifest E manifest_uri =
     bindE (liftE (split_gcs_uri manifest_uri)) (\<lambda>(bucket, path).
       try_except
         (bindE (fs_read_text E (gcs_object bucket path)) (\<lambda>data.
            liftE (manifest_entries E (splitlines data))))
         (\<lambda>c msg. returnE []))"

fun dumps_lines :: "env \<Rightarrow> pydict list \<Rightarrow> pyexc + string list" where
  "dumps_lines E [] = Inr []"
| "dumps_lines E (r # rs) =
     (case json_dumps_line E r of
        Inl e \<Rightarrow> Inl e
      | Inr l \<Rightarrow> (case dumps_lines E rs of Inl e \<Rightarrow> Inl e | Inr ls \<Rightarrow> Inr (l # ls)))"

definition append_manifest :: "env \<Rightarrow> string \<Rightarrow> pydict list \<Rightarrow> unit prog" where
  "append_manifest E manifest_uri records =
     bindE (liftE (split_gcs_uri manifest_uri)) (\<lambda>(bucket, path).
     bindE (try_except
              (bindE (fs_read_text E (gcs_object bucket path)) (\<lambda>data. returnE (splitlines data)))
              (\<lambda>c msg. returnE []))
       (\<lambda>existing_lines.
     bindE (liftE (dumps_lines E records)) (\<lambda>dumped.
       (let new_lines = existing_lines @ dumped;
            tmp_path = GcsObject (bucket @ ''/'' @ path @ ''.tmp'')
        in
        bindE (fs_write E tmp_path (Text (join [CHR 0x0A] new_lines @ [CHR 0x0A]))) (\<lambda>_.
        bindE (fs_exists E (gcs_object bucket path)) (\<lambda>is_file.
        bindE (if is_file then fs_delete E (gcs_object bucket path) else returnE ()) (\<lambda>_.
          fs_move E tmp_path (gcs_object bucket path))))))))"

definition acquire_local_lock :: "env \<Rightarrow> string \<Rightarrow> unit prog" where
  "acquire_local_lock E lock =
     bindE (fs_exists E (LocalFile (resolve_path E lock))) (\<lambda>ex.
       if ex then
         raiseE (Exception ''RuntimeError''
                   (''Lock exists at '' @ lock @ ''. Another job may be running.''))
       else
         bindE (utc_now_iso E) (\<lambda>t. fs_write E (LocalFile (resolve_path E lock)) (Text t)))"

text \<open>\<open>os.remove\<close> under \<open>except FileNotFoundError: pass\<close>.\<close>

definition release_local_lock :: "env \<Rightarrow> string \<Rightarrow> unit prog" where
  "release_local_lock E lock =
     (\<lambda>w. case fs_delete E (LocalFile (resolve_path E lock)) w of
        (Inl (Exception c msg), w') \<Rightarrow>
          (if c = ''FileNotFoundError'' then (Inr (), w') else (Inl (Exception c msg), w'))
      | (Inl (BaseOnly c), w') \<Rightarrow> (Inl (BaseOnly c), w')
      | (Inr u, w') \<Rightarrow> (Inr u, w'))"

text \<open>
  \<open>for i in range(0, len(new_files), batch_files): batch = new_files[i:i + batch_files]\<close>:
  a step of zero raises, a negative step gives no batch.
\<close>

definition batches :: "int \<Rightarrow> 'a list \<Rightarrow> pyexc + 'a list list" where
  "batches bf xs =
     (if bf = 0 then Inl (Exception ''ValueError'' ''range() arg 3 must not be zero'')
      else if bf < 0 then Inr []
      else Inr (map (\<lambda>k. take (nat bf) (drop (k * nat bf) xs))
                  [0 ..< (length xs + nat bf - 1) div nat bf]))"

fun manifest_records :: "env \<Rightarrow> string list \<Rightarrow> pydict list prog" where
  "manifest_records E [] = returnE []"
| "manifest_records E (uri # uris) =
     bindE (utc_now_iso E) (\<lambda>t.
     bindE (manifest_records E uris) (\<lambda>rs.
       returnE ([(''input_file'', PStr uri), (''processed_at'', PStr t)] # rs)))"

text \<open>
  The work on one batch, \<open>process_batch\<close> followed by \<open>merge_into_quarter_files\<close>, is a
  parameter \<open>work\<close> of the job: the claims about the manifest do not depend on how the rows
  are grouped and merged. Each batch handed to it is recorded in the trace.
\<close>

type_synonym batch_work = "string list \<Rightarrow> unit prog"

fun batch_loop :: "env \<Rightarrow> qargs \<Rightarrow> batch_work \<Rightarrow> string list list \<Rightarrow> unit prog" where
  "batch_loop E Q work [] = returnE ()"
| "batch_loop E Q work (batch # bs) =
     bindE (log_event (EBatch batch)) (\<lambda>_.
     bindE (work batch) (\<lambda>_.
     bindE (manifest_records E batch) (\<lambda>recs.
     bindE (append_manifest E (manifest Q) recs) (\<lambda>_.
       batch_loop E Q work bs))))"

text \<open>One turn of \<open>while True\<close>; the result says whether the loop goes round again.\<close>

definition one_pass :: "env \<Rightarrow> qargs \<Rightarrow> batch_work \<Rightarrow> string \<Rightarrow> string \<Rightarrow> bool prog" where
  "one_pass E Q work in_bucket in_prefix =
     bindE (read_manifest E (manifest Q)) (\<lambda>processed.
     bindE (list_gcs_parquets E in_bucket in_prefix) (\<lambda>all_files.
       (let new_files = filter (\<lambda>f. PStr f \<notin> set processed) all_files in
        if new_files = [] then
          (if sleep_seconds Q > 0 then bindE (time_sleep E ESleepPass) (\<lambda>_. returnE True)
           else returnE False)
        else
          bindE (liftE (batches (batch_files Q) new_files)) (\<lambda>bs.
          bindE (batch_loop E Q work bs) (\<lambda>_.
            if sleep_seconds Q > 0 then bindE (time_sleep E ESleepPass) (\<lambda>_. returnE True)
            else returnE False)))))"

text \<open>
  The loop \<open>while True\<close> with a bound on the number of turns: \<open>None\<close> when the loop is
  still running after \<open>fuel\<close> turns (with \<open>--sleep-seconds\<close> positive it never ends).
\<close>

fun pass_loop :: "env \<Rightarrow> qargs \<Rightarrow> batch_work \<Rightarrow> string \<Rightarrow> string \<Rightarrow> nat \<Rightarrow> unit option prog" where
  "pass_loop E Q work in_bucket in_prefix 0 = returnE None"
| "pass_loop E Q work in_bucket in_prefix (Suc fuel) =
     bindE (one_pass E Q work in_bucket in_prefix) (\<lambda>again.
       if again then pass_loop E Q work in_bucket in_prefix fuel else returnE (Some ()))"

text \<open>
  \<open>main\<close> of the job. The lock is released in the \<open>finally\<close> clause on every way out of the
  loop; a loop that is still running has not released it.
\<close>

definition partition_main :: "env \<Rightarrow> qargs \<Rightarrow> batch_work \<Rightarrow> nat \<Rightarrow> unit option prog" where
  "partition_main E Q work fuel =
     bindE (acquire_local_lock E (lock_path Q)) (\<lambda>_.
       (\<lambda>w. case
               bindE (liftE (split_gcs_uri (input_prefix Q))) (\<lambda>(in_bucket, in_prefix0).
                 (let in_prefix = (if endswith in_prefix0 ''/'' then butlast in_prefix0
                                   else in_prefix0)
                  in pass_loop E Q work in_bucket in_prefix fuel)) w
             of
               (Inr None, w') \<Rightarrow> (Inr None, w')
             | (r, w') \<Rightarrow>
                 (case release_local_lock E (lock_path Q) w' of
                    (Inl e, w'') \<Rightarrow> (Inl e, w'')
                  | (Inr u, w'') \<Rightarrow> (r, w''))))"

section \<open>A reference JSON rendering\<close>

text \<open>
  What \<open>json.dumps\<close> prints for a dictionary of integers, strings and \<open>None\<close>, and the
  \<open>TypeError\<close> it raises on any other object. It instantiates the parameter \<open>json_dumps\<close>
  in the examples; \<open>json_loads_among ds\<close> reads back exactly the documents that are the
  rendering of a dictionary in \<open>ds\<close>, and rejects every other text.
\<close>

definition json_quote :: "string \<Rightarrow> string" where
  "json_quote s =
     CHR 0x22 # concat (map (\<lambda>c. if c = CHR 0x22 then [CHR 0x5C, CHR 0x22]
                                   else if c = CHR 0x5C then [CHR 0x5C, CHR 0x5C]
                                   else [c]) s) @ [CHR 0x22]"

fun json_value :: "pyval \<Rightarrow> pyexc + string" where
  "json_value (PInt n) = Inr (str_int n)"
| "json_value (PStr s) = Inr (json_quote s)"
| "json_value PNone = Inr ''null''"
| "json_value (PObj ty s) =
     Inl (Exception ''TypeError'' (''Object of type '' @ ty @ '' is not JSON serializable''))"

fun json_members :: "pydict \<Rightarrow> pyexc + string list" where
  "json_members [] = Inr []"
| "json_members ((k, v) # d) =
     (case json_value v of
        Inl e \<Rightarrow> Inl e
      | Inr t \<Rightarrow>
          (case json_members d of
             Inl e \<Rightarrow> Inl e
           | Inr ts \<Rightarrow> Inr ((json_quote k @ '': '' @ t) # ts)))"

definition json_dumps_indent2 :: "pydict \<Rightarrow> pyexc + string" where
  "json_dumps_indent2 d =
     (case json_members d of
        Inl e \<Rightarrow> Inl e
      | Inr ms \<Rightarrow>
          Inr (if ms = [] then ''{}''
               else ''{'' @ [CHR 0x0A] @ ''  '' @ join ('','' @ [CHR 0x0A] @ ''  '') ms
                    @ [CHR 0x0A] @ ''}''))"

definition json_dumps_compact :: "pydict \<Rightarrow> pyexc + string" where
  "json_dumps_compact d =
     (case json_members d of
        Inl e \<Rightarrow> Inl e
      | Inr ms \<Rightarrow> Inr (''{'' @ join '', '' ms @ ''}''))"

definition json_loads_among :: "pydict list \<Rightarrow> string \<Rightarrow> pyexc + pydict" where
  "json_loads_among ds s =
     (case List.find (\<lambda>d. json_dumps_indent2 d = Inr s \<or> json_dumps_compact d = Inr s) ds of
        Some d \<Rightarrow> Inr d
      | None \<Rightarrow> Inl (Exception ''JSONDecodeError'' ''Expecting value''))"

section \<open>Concrete inputs\<close>

definition world0 :: world where
  "world0 = \<lparr>files = Map.empty, heap_obj = (\<lambda>a. []), heap_next = 0, clock = 1700000000,
             stdout = [], trace = []\<rparr>"

text \<open>
  An environment in which every collaborator works: no storage fault, every GET answered
  with status 200, no interrupt.
\<close>

definition env_std :: env where
  "env_std =
     \<lparr>fault = (\<lambda>op l. None), resolve_path = (\<lambda>p. p),
      json_dumps = json_dumps_indent2, json_dumps_line = json_dumps_compact,
      json_loads = json_loads_among [],
      http_get = (\<lambda>w url agent. Inr \<lparr>status_code = 200, body = ''<html><body>10-K</body></html>''\<rparr>),
      table_links = (\<lambda>html. Inr None), soup_text = (\<lambda>html. Inr html),
      sleep_fault = (\<lambda>w. None), gcs_list = (\<lambda>w p. Inr []), iso_format = str_int\<rparr>"

text \<open>The parts a run has written, in the order of writing, and their records.\<close>

definition written_parts :: "world \<Rightarrow> pydict list list" where
  "written_parts w = concat (map (\<lambda>ev. case ev of EWritePart l rs \<Rightarrow> [rs] | _ \<Rightarrow> []) (trace w))"

definition written_records :: "world \<Rightarrow> pydict list" where
  "written_records w = concat (written_parts w)"

text \<open>A deterministic fetch stub: every row succeeds, with a content that is the same on every call.\<close>

definition fetch_stub :: fetch_fn where
  "fetch_stub r agent =
     returnE (Some (py_str (row_get r ''Filename'')), Some ''<html>filing</html>'', ''stub'')"

definition args_small :: args where
  "args_small =
     \<lparr>output_prefix = ''out'', user_agent = ''agent'', retry_limit = 2, checkpoint_every = 1,
      max_rowgroups = 0, max_filings = 0, skip_if_exists = False, checkpoint_path = [],
      checkpoint_save_every = 50\<rparr>"


definition ckpt_after_first_flush :: pydict where
  "ckpt_after_first_flush =
     [(''rowgroup'', PInt 0), (''row_in_rowgroup'', PInt 0), (''out_part'', PInt 1),
      (''ok_in_part'', PInt 0), (''total_seen'', PInt 1), (''total_ok'', PInt 1),
      (''updated_at_unix'', PInt 1700000000)]"

definition env_resume :: env where
  "env_resume = env_std\<lparr>json_loads := json_loads_among [ckpt_after_first_flush]\<rparr>"

text \<open>The same environment, with an interrupt in the first sleep after one part is written.\<close>

definition env_interrupt :: env where
  "env_interrupt =
     env_resume\<lparr>sleep_fault := (\<lambda>w. if length (written_parts w) = 1
                                       then Some (BaseOnly ''KeyboardInterrupt'') else None)\<rparr>"

definition one_row :: "dataframe list" where
  "one_row = [\<lparr>columns = [''Filename''], rows = [[(''Filename'', PStr ''a.txt'')]]\<rparr>]"

text \<open>The world that the interrupted run over \<open>one_row\<close> leaves behind.\<close>

definition world_interrupted :: world where
  "world_interrupted = snd (main args_small env_interrupt fetch_stub one_row world0)"

definition record_of :: "string \<Rightarrow> pydict" where
  "record_of name =
     [(''status'', PStr (check_mark @ '' Success'')), (''filing_url'', PStr name),
      (''filing_text'', PStr ''<html>filing</html>''), (''cleaned_text'', PStr ''<html>filing</html>''),
      (''filename'', PStr name)]"


definition apple_row :: row where
  "apple_row =
     [(''Filename'', PStr ''edgar/data/320193/0000320193-20-000096.txt''), (''Form Type'', PStr ''10-K'')]"

definition apple_url :: string where
  "apple_url = ''https://www.sec.gov/Archives/edgar/data/320193/0000320193-20-000096.txt''"

subsection \<open>Predicates and inputs of the statements\<close>













definition env_down :: env where
  "env_down =
     env_std\<lparr>http_get := (\<lambda>w url agent. Inl (Exception ''ConnectionError'' ''timed out'')),
             soup_text := (\<lambda>html. Inl (Exception ''ParserRejectedMarkup'' ''bad markup''))\<rparr>"

definition state_dict :: pydict where
  "state_dict =
     [(''rowgroup'', PInt 2), (''row_in_rowgroup'', PInt 17), (''out_part'', PInt 3),
      (''ok_in_part'', PInt 5), (''total_seen'', PInt 640), (''total_ok'', PInt 605)]"

definition world_state :: world where
  "world_state = world0\<lparr>heap_obj := (\<lambda>a. state_dict), heap_next := 1\<rparr>"




section \<open>Programs applied to a world\<close>

lemma bindE_apply:
  "bindE m f w = (case m w of (Inl e, w') \<Rightarrow> (Inl e, w') | (Inr x, w') \<Rightarrow> f x w')"
  by (simp add: bindE_def)

lemma try_except_apply:
  "try_except m h w =
     (case m w of
        (Inl (Exception c msg), w') \<Rightarrow> h c msg w'
      | (Inl (BaseOnly c), w') \<Rightarrow> (Inl (BaseOnly c), w')
      | (Inr x, w') \<Rightarrow> (Inr x, w'))"
  by (simp add: try_except_def)

section \<open>Properties of the checkpoint store\<close>

text \<open>
  C4. The claim: for every path at which no checkpoint object exists, and for every path
  whose bytes fail to deserialize, \<open>load_checkpoint\<close> returns \<open>None\<close> and never raises.
  The existence test stands before the \<open>try\<close> block, and \<open>is_gcs_path\<close> lowers the case of
  the scheme where \<open>parse_gcs_url\<close> does not: for the path \<open>GS://bucket/_checkpoint.json\<close>,
  whatever the storage holds and however its collaborators behave, \<open>load_checkpoint\<close> raises
  \<open>ValueError\<close> instead of returning \<open>None\<close>.
\<close>

theorem load_checkpoint_uppercase_scheme_raises:
  "load_checkpoint E ''GS://bucket/_checkpoint.json'' w
     = (Inl (Exception ''ValueError'' ''Not a GCS URL: GS://bucket/_checkpoint.json''), w)"
  by (simp add: load_checkpoint_def checkpoint_exists_def is_gcs_path_def gcs_exists_def
      parse_gcs_url_def bindE_def liftE_def startswith_def lower_def strip_def is_space_def
      lower_char_def)















text \<open>What \<open>save_checkpoint\<close> does to the heap: one new object, the copy with its timestamp.\<close>

lemma save_checkpoint_heap:
  "heap_obj (snd (save_checkpoint E path state w))
     = (heap_obj w)(heap_next w := dict_set (heap_obj w state) ''updated_at_unix'' (PInt (clock w)))"
  by (auto simp: save_checkpoint_def bindE_apply try_except_apply dict_copy_def dict_read_def
        dict_new_def dict_store_def time_now_def liftE_def fs_write_def fs_mkdir_parent_def
        print_line_def
      split: prod.splits sum.splits pyexc.splits option.splits if_splits)

text \<open>
  C10. For every state dictionary passed to \<open>save_checkpoint\<close>, the caller's dictionary is
  left unchanged by the call, whether it returns or raises: the field \<open>updated_at_unix\<close> is
  added to a copy, a new object of the heap, so the object that \<open>state\<close> refers to (an object
  allocated before the call) has the keys and values it had.
\<close>

theorem save_checkpoint_leaves_state:
  assumes "state < heap_next w"
  shows "heap_obj (snd (save_checkpoint E path state w)) state = heap_obj w state"
  using assms by (simp add: save_checkpoint_heap)

theorem save_checkpoint_leaves_state_witness:
  "0 < heap_next world_state
   \<and> heap_obj (snd (save_checkpoint env_std ''out/_checkpoint.json'' 0 world_state)) 0 = state_dict"
  using save_checkpoint_leaves_state [of 0 world_state env_std "''out/_checkpoint.json''"]
  by (simp add: world_state_def world0_def)

section \<open>Properties of the fetcher\<close>

lemma apple_filename:
  "remove_spaces (strip (py_str (row_get apple_row ''Filename'')))
     = ''edgar/data/320193/0000320193-20-000096.txt''"
  by code_simp

lemma apple_direct: "endswith (lower ''edgar/data/320193/0000320193-20-000096.txt'') ''.txt''"
  by code_simp

text \<open>
  C7, as the spec states it: for the row whose \<open>Filename\<close> is
  \<open>edgar/data/320193/0000320193-20-000096.txt\<close> and a fetch answered with HTTP 200, the
  status of the result is \<open>Success (direct)\<close>. The status the code returns opens with a
  check mark (U+2705) and a space, so it is not that string.
\<close>

theorem direct_status_counterexample:
  "fst (extract_filing_html_directly env_std apple_row ''agent'' world0)
     = Inr (Some apple_url, Some ''<html><body>10-K</body></html>'', check_mark @ '' Success (direct)'')
   \<and> check_mark @ '' Success (direct)'' \<noteq> ''Success (direct)''"
  by code_simp

text \<open>
  C7, amended: for that row the fetcher takes the direct-document branch and requests
  \<open>https://www.sec.gov/Archives/edgar/data/320193/0000320193-20-000096.txt\<close>; when the
  answer has status 200, the result is that URL, the body of the answer as content, and
  the status made of the check mark U+2705, a space and \<open>Success (direct)\<close>. The world is
  left as it was.
\<close>

theorem direct_layout_success:
  assumes "http_get E w apple_url agent = Inr resp" and "status_code resp = 200"
  shows "extract_filing_html_directly E apple_row agent w
           = (Inr (Some apple_url, Some (body resp), check_mark @ '' Success (direct)''), w)"
  using assms
  by (simp add: extract_filing_html_directly_def extract_body_def apple_filename apple_direct
      try_except_def bindE_def returnE_def requests_get_def lstrip_chars_def apple_url_def Let_def)

theorem direct_layout_success_witness:
  "http_get env_std world0 apple_url ''agent''
     = Inr \<lparr>status_code = 200, body = ''<html><body>10-K</body></html>''\<rparr>
   \<and> extract_filing_html_directly env_std apple_row ''agent'' world0
       = (Inr (Some apple_url, Some ''<html><body>10-K</body></html>'',
               check_mark @ '' Success (direct)''), world0)"
  using direct_layout_success
          [of env_std world0 "''agent''" "\<lparr>status_code = 200, body = ''<html><body>10-K</body></html>''\<rparr>"]
  by (simp add: env_std_def)

text \<open>
  C6. For every candidate row and user agent, no \<open>Exception\<close> leaves the per-row fetch
  function: whatever \<open>Exception\<close> is raised inside it, by the transport or by the parser, is
  caught and turned into the result \<open>(None, None, status)\<close>, whose content is \<open>None\<close> and whose
  status is the warning sign, \<open>Exception:\<close> and the text of the exception. Likewise no
  \<open>Exception\<close> leaves the cleaning helper, which returns the text \<open>Cleaning failed:\<close> with
  the text of the exception in its place. (An exit or an interrupt, which is no instance of
  \<open>Exception\<close>, is not caught by \<open>except Exception\<close>.)
\<close>

theorem fetch_and_clean_never_raise:
  "(\<forall>c m. fst (extract_filing_html_directly E r agent w) \<noteq> Inl (Exception c m))
   \<and> (\<forall>c m w'. extract_body E r agent w = (Inl (Exception c m), w') \<longrightarrow>
         extract_filing_html_directly E r agent w
           = (Inr (None, None, warning_sign @ '' Exception: '' @ m), w'))
   \<and> (\<forall>c m. fst (clean_filing_html E html w) \<noteq> Inl (Exception c m))
   \<and> (\<forall>c m w'. clean_body E html w = (Inl (Exception c m), w') \<longrightarrow>
         clean_filing_html E html w = (Inr (warning_sign @ '' Cleaning failed: '' @ m), w'))"
  by (auto simp: extract_filing_html_directly_def clean_filing_html_def try_except_apply returnE_def
      split: prod.splits sum.splits pyexc.splits)

theorem fetch_and_clean_never_raise_witness:
  "extract_body env_down apple_row ''agent'' world0
     = (Inl (Exception ''ConnectionError'' ''timed out''), world0)
   \<and> extract_filing_html_directly env_down apple_row ''agent'' world0
     = (Inr (None, None, warning_sign @ '' Exception: timed out''), world0)
   \<and> clean_body env_down ''<p>x</p>'' world0
     = (Inl (Exception ''ParserRejectedMarkup'' ''bad markup''), world0)
   \<and> clean_filing_html env_down ''<p>x</p>'' world0
     = (Inr (warning_sign @ '' Cleaning failed: bad markup''), world0)"
proof -
  have b: "extract_body env_down apple_row ''agent'' world0
             = (Inl (Exception ''ConnectionError'' ''timed out''), world0)"
    by (simp add: extract_body_def apple_filename apple_direct bindE_apply requests_get_def
          env_down_def env_std_def Let_def)
  have c: "clean_body env_down ''<p>x</p>'' world0
             = (Inl (Exception ''ParserRejectedMarkup'' ''bad markup''), world0)"
    by (simp add: clean_body_def bindE_apply liftE_def env_down_def env_std_def)
  from fetch_and_clean_never_raise [of env_down apple_row "''agent''" world0 "''<p>x</p>''"] b c
  show ?thesis by simp
qed

section \<open>Properties of the retry loop\<close>












section \<open>Resuming from the checkpoint\<close>

lemma bindE_cong_weak: "m = m' \<Longrightarrow> bindE m f = bindE m' f"
  by simp

lemma try_except_cong_weak: "m = m' \<Longrightarrow> try_except m h = try_except m' h"
  by simp

lemma retry_loop_unfold:
  "retry_loop E F agent r n cur =
     (if n = 0 then returnE cur
      else
        bindE (log_event (EFetch r)) (\<lambda>_.
        bindE (F r agent) (\<lambda>(url, html_text, status).
          if truthy html_text then returnE (url, html_text, Some status)
          else bindE (time_sleep E ESleepRetry) (\<lambda>_.
                 retry_loop E F agent r (n - 1) (url, html_text, Some status)))))"
  by (cases n) (simp_all cong: if_cong)

lemma env_resume_fields:
  "fault env_resume = (\<lambda>op l. None)"
  "resolve_path env_resume = (\<lambda>p. p)"
  "json_dumps env_resume = json_dumps_indent2"
  "json_loads env_resume = json_loads_among [ckpt_after_first_flush]"
  "soup_text env_resume = (\<lambda>html. Inr html)"
  "sleep_fault env_resume = (\<lambda>w. None)"
  by (simp_all add: env_resume_def env_std_def)

lemma env_interrupt_fields:
  "fault env_interrupt = (\<lambda>op l. None)"
  "resolve_path env_interrupt = (\<lambda>p. p)"
  "json_dumps env_interrupt = json_dumps_indent2"
  "json_loads env_interrupt = json_loads_among [ckpt_after_first_flush]"
  "soup_text env_interrupt = (\<lambda>html. Inr html)"
  "sleep_fault env_interrupt = (\<lambda>w. if length (written_parts w) = 1
                                       then Some (BaseOnly ''KeyboardInterrupt'') else None)"
  by (simp_all add: env_interrupt_def env_resume_def env_std_def)

lemma args_small_fields:
  "output_prefix args_small = ''out''"
  "user_agent args_small = ''agent''"
  "retry_limit args_small = 2"
  "checkpoint_every args_small = 1"
  "max_rowgroups args_small = 0"
  "max_filings args_small = 0"
  "skip_if_exists args_small = False"
  "checkpoint_path args_small = []"
  "checkpoint_save_every args_small = 50"
  "output_prefix (args_small\<lparr>checkpoint_path := p\<rparr>) = ''out''"
  "user_agent (args_small\<lparr>checkpoint_path := p\<rparr>) = ''agent''"
  "retry_limit (args_small\<lparr>checkpoint_path := p\<rparr>) = 2"
  "checkpoint_every (args_small\<lparr>checkpoint_path := p\<rparr>) = 1"
  "max_rowgroups (args_small\<lparr>checkpoint_path := p\<rparr>) = 0"
  "max_filings (args_small\<lparr>checkpoint_path := p\<rparr>) = 0"
  "skip_if_exists (args_small\<lparr>checkpoint_path := p\<rparr>) = False"
  "checkpoint_save_every (args_small\<lparr>checkpoint_path := p\<rparr>) = 50"
  by (simp_all add: args_small_def)

lemmas run_simps =
  bindE_apply try_except_apply
  returnE_def raiseE_def liftE_def print_line_def log_event_def time_now_def time_sleep_def
  fs_exists_def fs_read_text_def fs_mkdir_parent_def fs_write_def
  dict_new_def dict_read_def dict_copy_def dict_store_def
  is_space_def strip_def strip_chars_def lower_char_def lower_def startswith_def endswith_def
  digit_char_def str_digits.simps str_int_def fmt_06d_def check_mark_def
  is_gcs_path_def parse_gcs_url_def gcs_object_def gcs_exists_def checkpoint_exists_def
  load_checkpoint_def save_checkpoint_def row_get_def clean_body_def clean_filing_html_def
  is_linebreak_def splitlines_def
  TENK_FORMS_def norm_form_type_def is_tenk_def filter_forms_def read_row_group_def iloc_def
  col_key_def row_val_def opt_str_def make_record_def path_join_def part_url_def persist_ckpt_def
  write_parquet_def write_part_gcs_def write_part_local_def after_flush_def flush_part_def
  truthy_def fail_branch_def success_branch_def row_step_def rowgroup_step_def
  is_digit_def nat_of_digits_def int_of_str_def ckpt_int_def default_checkpoint_path_def main_def
  dict_get_def
  json_quote_def json_dumps_indent2_def json_dumps_compact_def json_loads_among_def
  world0_def written_parts_def written_records_def fetch_stub_def one_row_def
  ckpt_after_first_flush_def record_of_def py_str.simps
  env_resume_fields env_interrupt_fields args_small_fields
  upto.simps Let_def retry_loop_unfold

lemmas run_congs =
  bindE_cong_weak try_except_cong_weak let_weak_cong prod.case_cong_weak sum.case_cong_weak

lemma uninterrupted_run:
  "(case main args_small env_resume fetch_stub one_row world0 of
      (r, w) \<Rightarrow> (r, written_records w))
     = (Inr (), [record_of ''a.txt''])"
  by (simp add: run_simps cong: run_congs)

lemma interrupted_then_resumed:
  "(case main args_small env_interrupt fetch_stub one_row world0 of
      (r1, w1) \<Rightarrow>
        (r1, written_records w1,
         (case load_checkpoint env_resume ''out/_checkpoint.json'' w1 of (c, w) \<Rightarrow> c),
         (case main args_small env_resume fetch_stub one_row w1 of
            (r2, w2) \<Rightarrow> (r2, written_records w2))))
     = (Inl (BaseOnly ''KeyboardInterrupt''), [record_of ''a.txt''],
        Inr (Some ckpt_after_first_flush),
        Inr (), [record_of ''a.txt'', record_of ''a.txt''])"
  by (simp add: run_simps cong: run_congs)

text \<open>
  C1. The claim: a run interrupted after a buffer flush and resumed from the saved
  checkpoint writes, over both runs, the same multiset of results as one uninterrupted
  run, because the checkpoint saved right after the flush records a position from which
  no flushed row is attempted again. \<open>flush_part\<close> saves the position
  \<open>(current_rowgroup, current_row_index)\<close>, the row just flushed, where the periodic
  checkpoint saves the next row \<open>i + 1\<close>. With one row group of one row, a flush after every
  success (\<open>--checkpoint-every 1\<close>) and a deterministic stub that succeeds: the run
  interrupted in the sleep that follows the flush has written the row and saved a
  checkpoint with \<open>row_in_rowgroup = 0\<close>; the resumed run fetches that row again and writes
  it to a second part. The two runs together have written the row twice, the
  uninterrupted run once.
\<close>

theorem resume_after_flush_repeats_row:
  "fst (main args_small env_interrupt fetch_stub one_row world0) = Inl (BaseOnly ''KeyboardInterrupt'')
   \<and> written_records world_interrupted = [record_of ''a.txt'']
   \<and> fst (load_checkpoint env_resume ''out/_checkpoint.json'' world_interrupted)
       = Inr (Some ckpt_after_first_flush)
   \<and> fst (main args_small env_resume fetch_stub one_row world_interrupted) = Inr ()
   \<and> written_records (snd (main args_small env_resume fetch_stub one_row world_interrupted))
       = [record_of ''a.txt'', record_of ''a.txt'']
   \<and> fst (main args_small env_resume fetch_stub one_row world0) = Inr ()
   \<and> written_records (snd (main args_small env_resume fetch_stub one_row world0))
       = [record_of ''a.txt'']
   \<and> mset (written_records (snd (main args_small env_resume fetch_stub one_row world_interrupted)))
       \<noteq> mset (written_records (snd (main args_small env_resume fetch_stub one_row world0)))"
  using interrupted_then_resumed uninterrupted_run
  by (auto simp: world_interrupted_def split: prod.splits)

end
